theory Spec2Isabelle
  imports Main "HOL-Library.Log_Nat"
begin

section \<open>JavaScript values used by the session core\<close>

text \<open>
  A JavaScript string is truthy exactly when it is not empty; the source tests tokens,
  role names and messages this way (\<open>if (token)\<close>, \<open>requiredRole && ...\<close>,
  \<open>x || 'default'\<close>).
\<close>

definition truthy :: "string \<Rightarrow> bool" where
  "truthy s = (s \<noteq> [])"

text \<open>
  \<open>x || d\<close> on a string that may be undefined: the string when it is present and
  truthy, the default otherwise.
\<close>

definition or_default :: "string option \<Rightarrow> string \<Rightarrow> string" where
  "or_default x d = (case x of None \<Rightarrow> d | Some v \<Rightarrow> if truthy v then v else d)"

text \<open>
  \<open>String.prototype.includes\<close>: the needle occurs somewhere in the string as a
  contiguous run of characters.
\<close>

fun startsWith :: "string \<Rightarrow> string \<Rightarrow> bool" where
  "startsWith hay [] = True"
| "startsWith [] (n # ns) = False"
| "startsWith (h # hs) (n # ns) = (h = n \<and> startsWith hs ns)"

fun str_includes :: "string \<Rightarrow> string \<Rightarrow> bool" where
  "str_includes [] needle = (needle = [])"
| "str_includes (h # hs) needle = (startsWith (h # hs) needle \<or> str_includes hs needle)"

text \<open>
  A template literal renders a positive integer in decimal
  (\<open>`${delayMinutes} min late`\<close>).
\<close>

fun decimal :: "nat \<Rightarrow> string" where
  "decimal n =
     (if n < 10 then [''0123456789'' ! n]
      else decimal (n div 10) @ [''0123456789'' ! (n mod 10)])"

section \<open>Delay status (utils/dateUtils)\<close>

text \<open>
  JavaScript numbers are IEEE 754 doubles, and \<open>getDelayStatus\<close> subtracts and divides
  them. A double is a rational \<open>m * 2^p\<close> with an integer \<open>m\<close> of at most 53 bits; an
  arithmetic operation returns the double nearest to the exact result, a tie going to the
  even \<open>m\<close>. \<open>round_double\<close> is that rounding on the rationals. It leaves out
  overflow to infinity and subnormal numbers, which the values of this function (between
  \<open>1 / 60000\<close> and \<open>2^54\<close> in magnitude, or zero) never reach.
\<close>

definition rne :: "rat \<Rightarrow> int" where
  "rne x =
     (let f = \<lfloor>x\<rfloor>; r = x - of_int f in
      if r < 1 / 2 then f
      else if 1 / 2 < r then f + 1
      else if even f then f else f + 1)"

text \<open>
  The exponent \<open>p\<close> of the double nearest to \<open>q \<noteq> 0\<close>: the one with
  \<open>2^52 \<le> |q| / 2^p < 2^53\<close>, found from the bit lengths of numerator and
  denominator.
\<close>

definition exponent :: "rat \<Rightarrow> int" where
  "exponent q =
     (let (a, b) = quotient_of \<bar>q\<bar>;
          p0 = bitlen a - bitlen b - 53
      in if \<bar>q\<bar> < 2 powi (p0 + 53) then p0 else p0 + 1)"

definition round_double :: "rat \<Rightarrow> rat" where
  "round_double q =
     (if q = 0 then 0
      else of_int (rne (q / 2 powi exponent q)) * 2 powi exponent q)"

text \<open>
  \<open>getDelayStatus\<close> parses both arguments with the date library and reads them with
  \<open>getTime()\<close>, which for a parseable timestamp is an integer number of milliseconds
  since the epoch, at most \<open>8.64 * 10^15\<close> in magnitude. The model takes these two
  integers. \<open>delayMinutes\<close> is the local constant of the source:
  \<open>Math.floor((estimated.getTime() - scheduled.getTime()) / (1000 * 60))\<close>, with the
  subtraction and the division rounded as the doubles are (the product \<open>1000 * 60\<close>
  and the floor are exact).
\<close>

definition delayMinutes :: "int \<Rightarrow> int \<Rightarrow> int" where
  "delayMinutes scheduled estimated =
     \<lfloor>round_double (round_double (of_int estimated - of_int scheduled) / (1000 * 60))\<rfloor>"

record DelayStatus =
  status :: string
  delay :: int
  message :: string

definition getDelayStatus :: "int \<Rightarrow> int \<Rightarrow> DelayStatus" where
  "getDelayStatus scheduled estimated =
     (if delayMinutes scheduled estimated \<le> 0 then
        \<lparr>status = ''on_time'', delay = 0, message = ''On time''\<rparr>
      else if delayMinutes scheduled estimated \<le> 5 then
        \<lparr>status = ''slight_delay'', delay = delayMinutes scheduled estimated,
         message = decimal (nat (delayMinutes scheduled estimated)) @ '' min late''\<rparr>
      else
        \<lparr>status = ''delayed'', delay = delayMinutes scheduled estimated,
         message = decimal (nat (delayMinutes scheduled estimated)) @ '' min late''\<rparr>)"

section \<open>Identity and API data (types/index.ts)\<close>

text \<open>
  \<open>UnifiedUser\<close> as the interface declares it. The field \<open>id\<close> is named
  \<open>id_num\<close> here, since \<open>id\<close> is the identity function of HOL.
\<close>

record UnifiedUser =
  id_num :: int
  email :: string
  is_admin :: bool
  roles :: "string list"
  created_at :: string
  updated_at :: string
  name :: "string option"
  username :: "string option"
  full_name :: "string option"
  is_active :: "bool option"
  is_2fa_enabled :: "bool option"
  last_login :: "string option"

record UserLoginRequest =
  login_email :: string
  login_password :: string

record UserRegisterRequest =
  register_name :: string
  register_email :: string
  register_password :: string

text \<open>\<open>AuthResponse\<close>; its field \<open>user\<close> is named \<open>auth_user\<close>.\<close>

record AuthResponse =
  access_token :: string
  token_type :: string
  auth_user :: UnifiedUser

record ApiError =
  detail :: string
  status_code :: int

text \<open>
  What the HTTP library hands to an error handler: \<open>error.response\<close> (absent when no
  response arrived) with its \<open>status\<close> and \<open>data?.detail\<close>, whether
  \<open>error.request\<close> is set, and \<open>error.message\<close>.
\<close>

record http_response =
  http_status :: int
  data_detail :: "string option"

record axios_error =
  response :: "http_response option"
  request :: bool
  error_message :: string

section \<open>Browser and provider state\<close>

text \<open>
  One record holds what the session core reads and writes: the three \<open>useState\<close>
  cells of \<open>AuthProvider\<close>, \<open>localStorage\<close>, \<open>window.location.pathname\<close>,
  and the assignments made to \<open>window.location.href\<close> (oldest first). Two fields
  are observations added by the model: \<open>sent\<close> lists the requests handed to the
  network (path and Authorization header), and \<open>initRuns\<close> counts how often
  \<open>initializeAuth\<close> went past its \<open>skipInitialization\<close> check.
\<close>

record sent_request =
  req_method :: string
  req_url :: string
  req_authorization :: "string option"

record app =
  user :: "UnifiedUser option"
  isLoading :: bool
  skipInitialization :: bool
  localStorage :: "string \<rightharpoonup> string"
  pathname :: string
  href :: "string list"
  sent :: "sent_request list"
  initRuns :: nat

section \<open>HTTP client (services/api)\<close>

text \<open>
  The request interceptor of both clients: the Authorization header it attaches, if any.
\<close>

definition request_interceptor :: "app \<Rightarrow> string option" where
  "request_interceptor s =
     (case localStorage s ''authToken'' of
        None \<Rightarrow> None
      | Some token \<Rightarrow> if truthy token then Some (''Bearer '' @ token) else None)"

text \<open>
  The rejection handlers of the two response interceptors. Each returns the rejected
  promise (\<open>Inl error\<close>) and the state it leaves.
\<close>

definition api_response_rejected ::
  "axios_error \<Rightarrow> app \<Rightarrow> (axios_error + 'a) \<times> app" where
  "api_response_rejected error s =
     (Inl error,
      if map_option http_status (response error) = Some 401 then
        (let s1 = s\<lparr>localStorage := (localStorage s)(''authToken'' := None)\<rparr> in
         if \<not> str_includes (pathname s1) ''/login''
         then s1\<lparr>href := href s1 @ [''/login'']\<rparr>
         else s1)
      else s)"

definition adminApi_response_rejected ::
  "axios_error \<Rightarrow> app \<Rightarrow> (axios_error + 'a) \<times> app" where
  "adminApi_response_rejected error s =
     (Inl error,
      if map_option http_status (response error) = Some 401 then
        (let s1 = s\<lparr>localStorage := (localStorage s)(''authToken'' := None)\<rparr> in
         if \<not> str_includes (pathname s1) ''/login''
         then s1\<lparr>href := href s1 @ [''/admin/login'']\<rparr>
         else s1)
      else s)"

text \<open>
  A call through the general client \<open>api\<close>: the request interceptor runs, the request
  goes out, and the network's answer (a parameter: the rejection or the response data)
  passes through the response interceptor, which returns a response unchanged.
\<close>

definition api_call ::
  "string \<Rightarrow> string \<Rightarrow> (axios_error + 'a) \<Rightarrow> app \<Rightarrow> (axios_error + 'a) \<times> app" where
  "api_call method url answer s =
     (let s1 = s\<lparr>sent := sent s @
                 [\<lparr>req_method = method, req_url = url,
                   req_authorization = request_interceptor s\<rparr>]\<rparr> in
      case answer of
        Inr data \<Rightarrow> (Inr data, s1)
      | Inl error \<Rightarrow> api_response_rejected error s1)"

definition authService_register ::
  "UserRegisterRequest \<Rightarrow> (axios_error + AuthResponse) \<Rightarrow> app
     \<Rightarrow> (axios_error + AuthResponse) \<times> app" where
  "authService_register userData answer s = api_call ''POST'' ''/auth/register'' answer s"

definition authService_login ::
  "UserLoginRequest \<Rightarrow> (axios_error + AuthResponse) \<Rightarrow> app
     \<Rightarrow> (axios_error + AuthResponse) \<times> app" where
  "authService_login credentials answer s = api_call ''POST'' ''/auth/login'' answer s"

text \<open>
  \<open>getCurrentUser\<close> declares no return type and returns the response body as it
  came. The body is modelled as an identity or as \<open>null\<close> (\<open>None\<close>), the
  two values the provider's \<open>user\<close> cell can hold.
\<close>

definition authService_getCurrentUser ::
  "(axios_error + UnifiedUser option) \<Rightarrow> app
     \<Rightarrow> (axios_error + UnifiedUser option) \<times> app" where
  "authService_getCurrentUser answer s = api_call ''GET'' ''/auth/me'' answer s"

definition handleApiError :: "axios_error \<Rightarrow> ApiError" where
  "handleApiError error =
     (case response error of
        Some r \<Rightarrow>
          \<lparr>detail = or_default (data_detail r) ''An error occurred'',
           status_code = http_status r\<rparr>
      | None \<Rightarrow>
          if request error then
            \<lparr>detail = ''Network error - please check your connection'', status_code = 0\<rparr>
          else
            \<lparr>detail = or_default (Some (error_message error)) ''An unexpected error occurred'',
             status_code = 0\<rparr>)"

section \<open>Auth context (AuthProvider)\<close>

text \<open>
  Each asynchronous operation is modelled as one step that takes the network's answer
  as a parameter; a thrown \<open>Error\<close> is \<open>Inl\<close> of its message.
\<close>

definition initializeAuth :: "(axios_error + UnifiedUser option) \<Rightarrow> app \<Rightarrow> app" where
  "initializeAuth answer s =
     (if skipInitialization s then s
      else
        let s1 = s\<lparr>isLoading := True, initRuns := initRuns s + 1\<rparr>;
            s2 = (case localStorage s1 ''authToken'' of
                    None \<Rightarrow> s1
                  | Some token \<Rightarrow>
                      if truthy token then
                        (case authService_getCurrentUser answer s1 of
                           (Inr userData, s') \<Rightarrow> s'\<lparr>user := userData\<rparr>
                         | (Inl error, s') \<Rightarrow>
                             s'\<lparr>localStorage := (localStorage s')(''authToken'' := None),
                                user := None\<rparr>)
                      else s1)
        in s2\<lparr>isLoading := False\<rparr>)"

definition login ::
  "UserLoginRequest \<Rightarrow> (axios_error + AuthResponse) \<Rightarrow> app
     \<Rightarrow> (string + AuthResponse) \<times> app" where
  "login credentials answer s =
     (case authService_login credentials answer s of
        (Inr resp, s1) \<Rightarrow>
          (Inr resp,
           s1\<lparr>localStorage := (localStorage s1)(''authToken'' \<mapsto> access_token resp),
              user := Some (auth_user resp),
              skipInitialization := True\<rparr>)
      | (Inl error, s1) \<Rightarrow> (Inl (detail (handleApiError error)), s1))"

definition register ::
  "UserRegisterRequest \<Rightarrow> (axios_error + AuthResponse) \<Rightarrow> app
     \<Rightarrow> (string + unit) \<times> app" where
  "register userData answer s =
     (case authService_register userData answer s of
        (Inr resp, s1) \<Rightarrow>
          (Inr (),
           s1\<lparr>localStorage := (localStorage s1)(''authToken'' \<mapsto> access_token resp),
              user := Some (auth_user resp)\<rparr>)
      | (Inl error, s1) \<Rightarrow> (Inl (detail (handleApiError error)), s1))"

definition logout :: "app \<Rightarrow> app" where
  "logout s =
     s\<lparr>localStorage := (localStorage s)(''authToken'' := None),
       user := None,
       skipInitialization := False\<rparr>"

text \<open>
  \<open>hasRole\<close> in the same state-passing form as the other operations: its result and
  the state it leaves.
\<close>

definition hasRole :: "string \<Rightarrow> app \<Rightarrow> bool \<times> app" where
  "hasRole role s =
     (case user s of
        None \<Rightarrow> (False, s)
      | Some u \<Rightarrow> (role \<in> set (roles u), s))"

definition isAuthenticated :: "app \<Rightarrow> bool" where
  "isAuthenticated s = (user s \<noteq> None)"

definition isAdminAuthenticated :: "app \<Rightarrow> bool" where
  "isAdminAuthenticated s = (case user s of None \<Rightarrow> False | Some u \<Rightarrow> is_admin u)"

section \<open>Route guards\<close>

text \<open>
  What a guard returns: the loading spinner, \<open><Navigate to=... state={{from: location}}
  replace/>\<close> (the target and the attempted location), the in-place "Access Denied"
  view, or its children.
\<close>

datatype element = LoadingSpinner | Navigate string string | AccessDenied | Children

definition AdminProtectedRoute :: "string option \<Rightarrow> app \<Rightarrow> element" where
  "AdminProtectedRoute requiredRole s =
     (if isLoading s then LoadingSpinner
      else case user s of
        None \<Rightarrow> Navigate ''/admin/login'' (pathname s)
      | Some u \<Rightarrow>
          if \<not> is_admin u then Navigate ''/admin/login'' (pathname s)
          else if (case requiredRole of
                     None \<Rightarrow> False
                   | Some r \<Rightarrow> truthy r \<and> r \<notin> set (roles u))
          then AccessDenied
          else Children)"

text \<open>
  Modelled from the spec: the general guard \<open>components/common/ProtectedRoute\<close> is
  imported by \<open>App.tsx\<close> but its file is not among the sources. The spec: while
  \<open>isLoading\<close>, render a loading placeholder; once resolved, if unauthenticated,
  redirect to \<open>/login\<close> carrying the attempted path; else render children.
\<close>

definition ProtectedRoute :: "app \<Rightarrow> element" where
  "ProtectedRoute s =
     (if isLoading s then LoadingSpinner
      else if \<not> isAuthenticated s then Navigate ''/login'' (pathname s)
      else Children)"

section \<open>The provider's life cycle\<close>

text \<open>
  \<open>useState\<close> gives the provider its initial cells, and the effect
  \<open>useEffect(..., [skipInitialization])\<close> runs \<open>initializeAuth\<close> after the first
  render and after every render in which \<open>skipInitialization\<close> differs from the
  render before.
\<close>

definition initial_app :: "(string \<rightharpoonup> string) \<Rightarrow> string \<Rightarrow> app" where
  "initial_app storage path =
     \<lparr>user = None, isLoading = True, skipInitialization = False,
      localStorage = storage, pathname = path, href = [], sent = [], initRuns = 0\<rparr>"

definition mount ::
  "(string \<rightharpoonup> string) \<Rightarrow> string \<Rightarrow> (axios_error + UnifiedUser option) \<Rightarrow> app" where
  "mount storage path answer = initializeAuth answer (initial_app storage path)"

datatype action =
    Login UserLoginRequest "axios_error + AuthResponse"
  | Register UserRegisterRequest "axios_error + AuthResponse"
  | Logout

fun perform :: "action \<Rightarrow> app \<Rightarrow> app" where
  "perform (Login credentials answer) s = snd (login credentials answer s)"
| "perform (Register userData answer) s = snd (register userData answer s)"
| "perform Logout s = logout s"

text \<open>
  One call on the context followed by the re-render: the effect runs again when the call
  changed \<open>skipInitialization\<close>. The first argument is what the network would answer
  to the identity request of that run.
\<close>

definition dispatch ::
  "(axios_error + UnifiedUser option) \<Rightarrow> action \<Rightarrow> app \<Rightarrow> app" where
  "dispatch me a s =
     (let s' = perform a s in
      if skipInitialization s' \<noteq> skipInitialization s then initializeAuth me s' else s')"

fun run :: "((axios_error + UnifiedUser option) \<times> action) list \<Rightarrow> app \<Rightarrow> app" where
  "run [] s = s"
| "run ((me, a) # rest) s = run rest (dispatch me a s)"

section \<open>Sample data\<close>

definition passenger :: UnifiedUser where
  "passenger =
     \<lparr>id_num = 1, email = ''a@b.com'', is_admin = False, roles = [''user''],
      created_at = ''2024-01-01T00:00:00Z'', updated_at = ''2024-01-01T00:00:00Z'',
      name = Some ''A'', username = None, full_name = None, is_active = None,
      is_2fa_enabled = None, last_login = None\<rparr>"

definition operator :: UnifiedUser where
  "operator =
     \<lparr>id_num = 2, email = ''op@b.com'', is_admin = True, roles = [''operator''],
      created_at = ''2024-01-01T00:00:00Z'', updated_at = ''2024-01-01T00:00:00Z'',
      name = None, username = Some ''op'', full_name = Some ''Op Erator'',
      is_active = Some True, is_2fa_enabled = Some False, last_login = None\<rparr>"

definition token_response :: "UnifiedUser \<Rightarrow> AuthResponse" where
  "token_response u = \<lparr>access_token = ''T'', token_type = ''bearer'', auth_user = u\<rparr>"

definition credentials_x :: UserLoginRequest where
  "credentials_x = \<lparr>login_email = ''a@b.com'', login_password = ''x''\<rparr>"

definition registration_x :: UserRegisterRequest where
  "registration_x =
     \<lparr>register_name = ''A'', register_email = ''a@b.com'', register_password = ''x''\<rparr>"

definition status_error :: "int \<Rightarrow> string option \<Rightarrow> axios_error" where
  "status_error code d =
     \<lparr>response = Some \<lparr>http_status = code, data_detail = d\<rparr>, request = True,
      error_message = ''Request failed''\<rparr>"

definition transport_error :: axios_error where
  "transport_error = \<lparr>response = None, request = True, error_message = ''Network Error''\<rparr>"

section \<open>Helper lemmas\<close>

lemma startsWith_iff: "startsWith hay needle \<longleftrightarrow> (\<exists>rest. hay = needle @ rest)"
  by (induction hay needle rule: startsWith.induct) auto

lemma str_includes_iff:
  "str_includes hay needle \<longleftrightarrow> (\<exists>before rest. hay = before @ needle @ rest)"
proof (induction hay)
  case Nil
  then show ?case by simp
next
  case (Cons h hs)
  show ?case
  proof
    assume "str_includes (h # hs) needle"
    then consider "startsWith (h # hs) needle" | "str_includes hs needle" by auto
    then show "\<exists>before rest. h # hs = before @ needle @ rest"
    proof cases
      case 1
      then obtain rest where "h # hs = needle @ rest" by (auto simp: startsWith_iff)
      then have "h # hs = [] @ needle @ rest" by simp
      then show ?thesis by blast
    next
      case 2
      then obtain before rest where "hs = before @ needle @ rest" using Cons.IH by auto
      then have "h # hs = (h # before) @ needle @ rest" by simp
      then show ?thesis by blast
    qed
  next
    assume "\<exists>before rest. h # hs = before @ needle @ rest"
    then obtain before rest where eq: "h # hs = before @ needle @ rest" by blast
    show "str_includes (h # hs) needle"
    proof (cases before)
      case Nil
      with eq have "startsWith (h # hs) needle" by (auto simp: startsWith_iff)
      then show ?thesis by simp
    next
      case (Cons b bs)
      with eq have "hs = bs @ needle @ rest" by simp
      then have "str_includes hs needle" using Cons.IH by blast
      then show ?thesis by simp
    qed
  qed
qed

subsection \<open>Rounding to a double\<close>

lemma rne_near: "\<bar>of_int (rne x) - x\<bar> \<le> 1 / 2"
  unfolding rne_def Let_def
  by (auto simp: abs_if) linarith+

lemma rne_int: "rne (of_int n) = n"
  by (simp add: rne_def)

lemma rat_pow2_le: "(2::int) ^ n \<le> a \<Longrightarrow> (2::rat) ^ n \<le> of_int a"
  by (metis of_int_le_iff of_int_numeral of_int_power)

lemma rat_less_pow2: "a < (2::int) ^ n \<Longrightarrow> (of_int a :: rat) < 2 ^ n"
  by (metis of_int_less_iff of_int_numeral of_int_power)

lemma rat_le_pow2: "a \<le> (2::int) ^ n \<Longrightarrow> (of_int a :: rat) \<le> 2 ^ n"
  by (metis of_int_le_iff of_int_numeral of_int_power)

text \<open>The exponent is the one a 53-bit significand needs.\<close>

lemma exponent_bounds:
  assumes "q \<noteq> 0"
  shows "2 powi (exponent q + 52) \<le> \<bar>q\<bar>" and "\<bar>q\<bar> < 2 powi (exponent q + 53)"
proof -
  obtain a b where ab: "quotient_of \<bar>q\<bar> = (a, b)" by (cases "quotient_of \<bar>q\<bar>")
  then have b: "0 < b" and q: "\<bar>q\<bar> = of_int a / of_int b"
    using quotient_of_denom_pos quotient_of_div by blast+
  from assms have "0 < \<bar>q\<bar>" by simp
  with q b have a: "0 < a" by (simp add: zero_less_divide_iff)
  define la where "la = bitlen a"
  define lb where "lb = bitlen b"
  have la1: "1 \<le> la" and lb1: "1 \<le> lb"
    using a b bitlen_eq_zero_iff [of a] bitlen_eq_zero_iff [of b] bitlen_nonneg [of a]
      bitlen_nonneg [of b]
    by (auto simp: la_def lb_def)
  have "2 ^ nat (la - 1) \<le> a" "a < 2 ^ nat la" "2 ^ nat (lb - 1) \<le> b" "b < 2 ^ nat lb"
    using bitlen_bounds [OF a] bitlen_bounds [OF b] by (auto simp: la_def lb_def)
  then have ra: "(2::rat) ^ nat (la - 1) \<le> of_int a" "(of_int a :: rat) < 2 ^ nat la"
    and rb: "(2::rat) ^ nat (lb - 1) \<le> of_int b" "(of_int b :: rat) < 2 ^ nat lb"
    by (simp_all only: rat_pow2_le rat_less_pow2)
  have pa: "(2::rat) ^ nat (la - 1) = 2 powi (la - 1)" "(2::rat) ^ nat la = 2 powi la"
    and pb: "(2::rat) ^ nat (lb - 1) = 2 powi (lb - 1)" "(2::rat) ^ nat lb = 2 powi lb"
    using la1 lb1 by (simp_all add: power_int_def)
  have bpos: "(0::rat) < of_int b" using b by simp
  have lo: "2 powi (la - lb - 1) < \<bar>q\<bar>"
  proof -
    have "2 powi (la - lb - 1) * of_int b < (2::rat) powi (la - lb - 1) * 2 powi lb"
      using rb(2) pb(2) by simp
    also have "\<dots> = 2 powi (la - 1)"
      by (simp add: power_int_add [symmetric])
    also have "\<dots> \<le> of_int a" using ra(1) pa(1) by simp
    finally show ?thesis using bpos by (simp add: q pos_less_divide_eq)
  qed
  have hi: "\<bar>q\<bar> < 2 powi (la - lb + 1)"
  proof -
    have "of_int a < (2::rat) powi la" using ra(2) pa(2) by simp
    also have "\<dots> = 2 powi (la - lb + 1) * 2 powi (lb - 1)"
      by (simp add: power_int_add [symmetric])
    also have "\<dots> \<le> 2 powi (la - lb + 1) * of_int b"
      using rb(1) pb(1) by simp
    finally show ?thesis using bpos by (simp add: q pos_divide_less_eq)
  qed
  have e: "exponent q = (if \<bar>q\<bar> < 2 powi (la - lb) then la - lb - 53 else la - lb - 52)"
    by (simp add: exponent_def ab la_def lb_def)
  show "2 powi (exponent q + 52) \<le> \<bar>q\<bar>"
    using lo by (auto simp: e)
  show "\<bar>q\<bar> < 2 powi (exponent q + 53)"
    using hi by (auto simp: e add.commute)
qed

lemma exponent_le:
  assumes "q \<noteq> 0" "\<bar>q\<bar> < 2 powi n"
  shows "exponent q + 52 < n"
proof (rule ccontr)
  assume "\<not> exponent q + 52 < n"
  then have "n \<le> exponent q + 52" by simp
  then have "(2::rat) powi n \<le> 2 powi (exponent q + 52)"
    by (simp add: power_int_increasing)
  with exponent_bounds(1) [OF assms(1)] assms(2) show False by simp
qed

lemma exponent_ge:
  assumes "q \<noteq> 0" "2 powi n \<le> \<bar>q\<bar>"
  shows "n < exponent q + 53"
proof (rule ccontr)
  assume "\<not> n < exponent q + 53"
  then have "exponent q + 53 \<le> n" by simp
  then have "(2::rat) powi (exponent q + 53) \<le> 2 powi n"
    by (simp add: power_int_increasing)
  with exponent_bounds(2) [OF assms(1)] assms(2) show False by simp
qed

text \<open>The rounded value is within half a unit in the last place.\<close>

lemma round_double_near:
  "\<bar>round_double q - q\<bar> \<le> 2 powi (exponent q - 1)"
proof (cases "q = 0")
  case True
  then show ?thesis by (simp add: round_double_def)
next
  case False
  define p where "p = exponent q"
  have pos: "(0::rat) < 2 powi p" by simp
  have "round_double q - q = (of_int (rne (q / 2 powi p)) - q / 2 powi p) * 2 powi p"
    using False pos by (simp add: round_double_def p_def algebra_simps)
  then have "\<bar>round_double q - q\<bar> = \<bar>of_int (rne (q / 2 powi p)) - q / 2 powi p\<bar> * 2 powi p"
    by (simp add: abs_mult)
  also have "\<dots> \<le> 1 / 2 * 2 powi p"
    using rne_near [of "q / 2 powi p"] pos by (simp add: mult_right_mono)
  also have "\<dots> = 2 powi (p - 1)"
    by (simp add: power_int_diff)
  finally show ?thesis by (simp add: p_def)
qed

text \<open>Integers up to \<open>2^53\<close> in magnitude are doubles.\<close>

lemma round_double_int_exact:
  assumes "\<bar>k\<bar> \<le> 2 ^ 53"
  shows "round_double (of_int k) = of_int k"
proof (cases "k = 0")
  case True
  then show ?thesis by (simp add: round_double_def)
next
  case False
  define q :: rat where "q = of_int k"
  define p where "p = exponent q"
  have q0: "q \<noteq> 0" using False by (simp add: q_def)
  have absq: "\<bar>q\<bar> = of_int \<bar>k\<bar>" by (simp add: q_def)
  have ex: "\<exists>m::int. q / 2 powi p = of_int m"
  proof (cases "\<bar>k\<bar> = 2 ^ 53")
    case True
    then have "\<bar>q\<bar> = 2 powi 53" by (simp add: absq)
    then have "(2::rat) powi 53 \<le> \<bar>q\<bar>" "\<bar>q\<bar> < 2 powi 54" by simp_all
    then have "p = 1"
      using exponent_ge [OF q0, of 53] exponent_le [OF q0, of 54] by (simp add: p_def)
    moreover have "even \<bar>k\<bar>" unfolding True by simp
    then have "even k" by simp
    then obtain m where "k = 2 * m" by (auto elim: evenE)
    ultimately have "q / 2 powi p = of_int m" by (simp add: q_def)
    then show ?thesis by blast
  next
    case False
    with assms have "\<bar>k\<bar> < 2 ^ 53" by simp
    then have "\<bar>q\<bar> < 2 powi 53"
      unfolding absq using rat_less_pow2 [of "\<bar>k\<bar>" 53] by simp
    then have "p \<le> 0" using exponent_le [OF q0, of 53] by (simp add: p_def)
    then obtain n where n: "p = - int n" by (metis nat_0_le neg_le_0_iff_le minus_minus)
    have "q / 2 powi p = of_int (k * 2 ^ n)"
      by (simp add: n q_def power_int_minus field_simps)
    then show ?thesis by blast
  qed
  then obtain m where m: "q / 2 powi p = of_int m" by blast
  have "round_double q = of_int m * 2 powi p"
    using q0 by (simp add: round_double_def p_def [symmetric] m rne_int)
  also have "\<dots> = q" using m by (simp add: field_simps)
  finally show ?thesis by (simp add: q_def)
qed

text \<open>Between \<open>2^53\<close> and \<open>2^54\<close> an integer rounds to an even neighbour.\<close>

lemma round_double_int_big:
  assumes "2 ^ 53 < \<bar>k\<bar>" "\<bar>k\<bar> < 2 ^ 54"
  shows "\<exists>n. round_double (of_int k) = of_int (2 * n) \<and> \<bar>2 * n - k\<bar> \<le> 1"
proof -
  define q :: rat where "q = of_int k"
  have q0: "q \<noteq> 0" using assms by (auto simp: q_def)
  have absq: "\<bar>q\<bar> = of_int \<bar>k\<bar>" by (simp add: q_def)
  have "(2::rat) powi 53 \<le> \<bar>q\<bar>" "\<bar>q\<bar> < 2 powi 54"
    using assms rat_pow2_le [of 53 "\<bar>k\<bar>"] rat_less_pow2 [of "\<bar>k\<bar>" 54]
    unfolding absq by simp_all
  then have p: "exponent q = 1"
    using exponent_ge [OF q0, of 53] exponent_le [OF q0, of 54] by simp
  define n where "n = rne (q / 2)"
  have r: "round_double q = of_int (2 * n)"
    using q0 by (simp add: round_double_def p n_def)
  have "\<bar>of_int n - q / 2\<bar> \<le> 1 / 2" using rne_near [of "q / 2"] by (simp add: n_def)
  then have "\<bar>(of_int (2 * n - k) :: rat)\<bar> \<le> 1"
    by (simp add: q_def abs_if split: if_splits)
  then have "\<bar>2 * n - k\<bar> \<le> 1"
    by (metis of_int_abs of_int_le_iff of_int_1)
  with r show ?thesis by (auto simp: q_def)
qed

text \<open>
  Dividing a double difference by 60000 and taking the floor gives the integer quotient:
  the quotient is either an integer or at least \<open>1 / 60000\<close> away from one
  (\<open>2 / 60000\<close> when the difference is even), which is more than the rounding moves it.
\<close>

lemma floor_round_div:
  fixes y :: int
  assumes "\<bar>y\<bar> \<le> 2 ^ 53 \<or> (even y \<and> \<bar>y\<bar> \<le> 2 ^ 54)"
  shows "\<lfloor>round_double (of_int y / (1000 * 60))\<rfloor> = y div 60000"
proof -
  define k where "k = y div 60000"
  define r where "r = y mod 60000"
  define q :: rat where "q = of_int y / 60000"
  have y: "y = 60000 * k + r" and r: "0 \<le> r" "r < 60000"
    by (simp_all add: k_def r_def)
  have ybound: "\<bar>y\<bar> \<le> 2 ^ 54" using assms by auto
  have qk: "q = of_int k + of_int r / 60000" by (simp add: q_def y)
  show ?thesis
  proof (cases "r = 0")
    case True
    then have "q = of_int k" by (simp add: qk)
    moreover have "\<bar>k\<bar> \<le> 2 ^ 53" using ybound y True by (simp add: abs_if split: if_splits)
    ultimately have "round_double q = of_int k" by (simp add: round_double_int_exact)
    then show ?thesis by (simp add: q_def k_def)
  next
    case False
    then have "y \<noteq> 0" by (auto simp: r_def)
    then have q0: "q \<noteq> 0" by (simp add: q_def)
    have gap: "\<exists>g::int. 1 \<le> g \<and> \<bar>of_int y\<bar> \<le> (2::rat) ^ (52 + nat g)
                 \<and> g \<le> r \<and> r \<le> 60000 - g \<and> g \<le> 2"
    proof (cases "\<bar>y\<bar> \<le> 2 ^ 53")
      case True
      then have "\<bar>(of_int y::rat)\<bar> \<le> 2 ^ 53"
        using rat_le_pow2 [of "\<bar>y\<bar>" 53] by simp
      then have "\<bar>(of_int y::rat)\<bar> \<le> 2 ^ (52 + nat 1)" by simp
      moreover have "1 \<le> r" "r \<le> 60000 - 1" using False r by simp_all
      ultimately show ?thesis by (intro exI [of _ 1]) simp
    next
      case big: False
      with assms have ev: "even y" and "\<bar>y\<bar> \<le> 2 ^ 54" by auto
      then have "\<bar>(of_int y::rat)\<bar> \<le> 2 ^ 54"
        using rat_le_pow2 [of "\<bar>y\<bar>" 54] by simp
      then have "\<bar>(of_int y::rat)\<bar> \<le> 2 ^ (52 + nat 2)" by simp
      moreover have "even r" using ev by (simp add: r_def dvd_mod_iff)
      then have "2 \<le> r" "r \<le> 60000 - 2" using False r by presburger+
      ultimately show ?thesis by (intro exI [of _ 2]) simp
    qed
    then obtain g :: int where g: "1 \<le> g" "\<bar>of_int y\<bar> \<le> (2::rat) ^ (52 + nat g)"
      "g \<le> r" "r \<le> 60000 - g" "g \<le> 2" by blast
    have "\<bar>q\<bar> = \<bar>of_int y\<bar> / 60000" by (simp add: q_def)
    also have "\<dots> \<le> 2 ^ (52 + nat g) / 60000" using g(2) by (simp add: divide_right_mono)
    also have "\<dots> < 2 ^ (52 + nat g) / 2 ^ 15" by (simp add: divide_strict_left_mono)
    also have "\<dots> = 2 powi (37 + g)"
      using g(1) by (simp add: power_int_def power_add nat_add_distrib)
    finally have "exponent q + 52 < 37 + g" using exponent_le [OF q0] by blast
    then have "exponent q - 1 \<le> g - 17" by simp
    then have "(2::rat) powi (exponent q - 1) \<le> 2 powi (g - 17)"
      by (simp add: power_int_increasing)
    also have "\<dots> < of_int g / 60000"
    proof -
      from g(1) g(5) consider "g = 1" | "g = 2" by fastforce
      then show ?thesis by cases (simp_all add: power_int_minus)
    qed
    finally have near: "\<bar>round_double q - q\<bar> < of_int g / 60000"
      using round_double_near [of q] by simp
    have "of_int k + of_int g / 60000 \<le> q" "q \<le> of_int k + 1 - of_int g / 60000"
      using g(3) g(4) by (simp_all add: qk field_simps)
    with near have "of_int k \<le> round_double q" "round_double q < of_int k + 1"
      by (simp_all add: abs_if split: if_splits)
    then have "\<lfloor>round_double q\<rfloor> = k" by (simp add: floor_unique)
    then show ?thesis by (simp add: q_def k_def)
  qed
qed

text \<open>
  The difference of two time values as a double: an integer, the exact difference when
  that is at most \<open>2^53\<close> in magnitude and otherwise an even integer next to it; and
  \<open>delayMinutes\<close> is its integer quotient by 60000.
\<close>

lemma delayMinutes_quotient:
  assumes "\<bar>scheduled\<bar> \<le> 8640000000000000" "\<bar>estimated\<bar> \<le> 8640000000000000"
  shows "\<exists>diff. round_double (of_int estimated - of_int scheduled) = of_int diff
           \<and> \<bar>diff - (estimated - scheduled)\<bar> \<le> 1
           \<and> (\<bar>estimated - scheduled\<bar> \<le> 2 ^ 53 \<longrightarrow> diff = estimated - scheduled)
           \<and> delayMinutes scheduled estimated = diff div 60000"
proof (cases "\<bar>estimated - scheduled\<bar> \<le> 2 ^ 53")
  case True
  then have "round_double (of_int estimated - of_int scheduled)
               = of_int (estimated - scheduled)"
    using round_double_int_exact [of "estimated - scheduled"] by simp
  moreover from this True
  have "delayMinutes scheduled estimated = (estimated - scheduled) div 60000"
    unfolding delayMinutes_def using floor_round_div [of "estimated - scheduled"] by simp
  ultimately show ?thesis by (intro exI [of _ "estimated - scheduled"]) simp
next
  case False
  then have big: "2 ^ 53 < \<bar>estimated - scheduled\<bar>" by simp
  have small: "\<bar>estimated - scheduled\<bar> \<le> 17280000000000000" using assms by simp
  then have "\<bar>estimated - scheduled\<bar> < 2 ^ 54" by simp
  with big obtain n where n: "round_double (of_int (estimated - scheduled)) = of_int (2 * n)"
    "\<bar>2 * n - (estimated - scheduled)\<bar> \<le> 1"
    using round_double_int_big [of "estimated - scheduled"] by blast
  from n(2) small have "\<bar>2 * n\<bar> \<le> 2 ^ 54" by simp
  then have "\<lfloor>round_double (of_int (2 * n) / (1000 * 60))\<rfloor> = (2 * n) div 60000"
    using floor_round_div [of "2 * n"] by simp
  with n(1) have "delayMinutes scheduled estimated = (2 * n) div 60000"
    by (simp add: delayMinutes_def)
  with n False show ?thesis by (intro exI [of _ "2 * n"]) simp
qed

section \<open>Properties of the delay status\<close>

text \<open>
  C10. For every pair of parseable timestamps (time values within the range of a Date),
  the difference the code computes is an integer number of milliseconds: the exact
  difference whenever the two are at most \<open>2^53\<close> ms apart, and never more than one
  millisecond from it. With \<open>d\<close> the floor of that difference in minutes:
  \<open>d \<le> 0\<close> gives status on_time, delay 0 and message "On time";
  \<open>1 \<le> d \<le> 5\<close> gives slight_delay with delay \<open>d\<close>; \<open>d > 5\<close> gives delayed with
  delay \<open>d\<close>. The three cases are exclusive and exhaustive, and the reported delay is
  never negative.
\<close>

theorem getDelayStatus_buckets:
  assumes "\<bar>scheduled\<bar> \<le> 8640000000000000" "\<bar>estimated\<bar> \<le> 8640000000000000"
  shows "\<exists>diff.
           round_double (of_int estimated - of_int scheduled) = of_int diff
         \<and> \<bar>diff - (estimated - scheduled)\<bar> \<le> 1
         \<and> (\<bar>estimated - scheduled\<bar> \<le> 2 ^ 53 \<longrightarrow> diff = estimated - scheduled)
         \<and> (diff div 60000 \<le> 0 \<longrightarrow> getDelayStatus scheduled estimated =
               \<lparr>status = ''on_time'', delay = 0, message = ''On time''\<rparr>)
         \<and> (1 \<le> diff div 60000 \<and> diff div 60000 \<le> 5 \<longrightarrow>
               status (getDelayStatus scheduled estimated) = ''slight_delay''
             \<and> delay (getDelayStatus scheduled estimated) = diff div 60000)
         \<and> (5 < diff div 60000 \<longrightarrow>
               status (getDelayStatus scheduled estimated) = ''delayed''
             \<and> delay (getDelayStatus scheduled estimated) = diff div 60000)
         \<and> 0 \<le> delay (getDelayStatus scheduled estimated)
         \<and> status (getDelayStatus scheduled estimated)
              \<in> {''on_time'', ''slight_delay'', ''delayed''}"
proof -
  from delayMinutes_quotient [OF assms] obtain diff where
    d: "round_double (of_int estimated - of_int scheduled) = of_int diff"
       "\<bar>diff - (estimated - scheduled)\<bar> \<le> 1"
       "\<bar>estimated - scheduled\<bar> \<le> 2 ^ 53 \<longrightarrow> diff = estimated - scheduled"
       "delayMinutes scheduled estimated = diff div 60000"
    by blast
  have "(diff div 60000 \<le> 0 \<longrightarrow> getDelayStatus scheduled estimated =
               \<lparr>status = ''on_time'', delay = 0, message = ''On time''\<rparr>)
         \<and> (1 \<le> diff div 60000 \<and> diff div 60000 \<le> 5 \<longrightarrow>
               status (getDelayStatus scheduled estimated) = ''slight_delay''
             \<and> delay (getDelayStatus scheduled estimated) = diff div 60000)
         \<and> (5 < diff div 60000 \<longrightarrow>
               status (getDelayStatus scheduled estimated) = ''delayed''
             \<and> delay (getDelayStatus scheduled estimated) = diff div 60000)
         \<and> 0 \<le> delay (getDelayStatus scheduled estimated)
         \<and> status (getDelayStatus scheduled estimated)
              \<in> {''on_time'', ''slight_delay'', ''delayed''}"
    by (simp add: getDelayStatus_def d(4))
  with d(1,2,3) show ?thesis by blast
qed

theorem getDelayStatus_buckets_witness:
  "getDelayStatus 600000 480000 =
     \<lparr>status = ''on_time'', delay = 0, message = ''On time''\<rparr>
   \<and> status (getDelayStatus 0 299999) = ''slight_delay''
   \<and> delay (getDelayStatus 0 299999) = 4
   \<and> status (getDelayStatus 0 360000) = ''delayed''
   \<and> delay (getDelayStatus 0 360000) = 6"
proof -
  obtain d1 :: int where "d1 = 480000 - 600000"
    "d1 div 60000 \<le> 0 \<longrightarrow> getDelayStatus 600000 480000 =
       \<lparr>status = ''on_time'', delay = 0, message = ''On time''\<rparr>"
    using getDelayStatus_buckets [of 600000 480000] by auto
  moreover obtain d2 :: int where "d2 = 299999 - 0"
    "1 \<le> d2 div 60000 \<and> d2 div 60000 \<le> 5 \<longrightarrow>
       status (getDelayStatus 0 299999) = ''slight_delay''
     \<and> delay (getDelayStatus 0 299999) = d2 div 60000"
    using getDelayStatus_buckets [of 0 299999] by auto
  moreover obtain d3 :: int where "d3 = 360000 - 0"
    "5 < d3 div 60000 \<longrightarrow>
       status (getDelayStatus 0 360000) = ''delayed''
     \<and> delay (getDelayStatus 0 360000) = d3 div 60000"
    using getDelayStatus_buckets [of 0 360000] by auto
  ultimately show ?thesis by simp
qed

text \<open>
  At the two ends of the Date range the exact difference, 17279999999999999 ms, is not a
  double; the subtraction gives 17280000000000000, and the delay is the quotient of that.
\<close>

lemma delayMinutes_far_apart:
  "delayMinutes (- 8640000000000000) 8639999999999999 = 288000000000"
  by code_simp

lemma getDelayStatus_far_apart:
  "status (getDelayStatus (- 8640000000000000) 8639999999999999) = ''delayed''
   \<and> delay (getDelayStatus (- 8640000000000000) 8639999999999999) = 288000000000"
  by (simp add: getDelayStatus_def delayMinutes_far_apart)

section \<open>Properties of the route guards\<close>

text \<open>
  C1. The admin guard decides once the session is resolved (\<open>isLoading\<close> false).
  For every identity with \<open>is_admin = false\<close> it never renders its children, whatever
  \<open>roles\<close> holds: it redirects to \<open>/admin/login\<close>, carrying the attempted location.
  For every identity with \<open>is_admin = true\<close>, when the call site requires no extra
  role (none given, or the empty string), it renders its children. Until the session is
  resolved it renders the loading placeholder, whatever the identity is, so a non-admin
  sees no children then either.
\<close>

theorem admin_guard_exclusive:
  assumes "user s = Some u"
  shows "(\<not> is_admin u \<longrightarrow> AdminProtectedRoute requiredRole s \<noteq> Children)
       \<and> (\<not> is_admin u \<and> \<not> isLoading s \<longrightarrow>
            AdminProtectedRoute requiredRole s = Navigate ''/admin/login'' (pathname s))
       \<and> (is_admin u \<and> \<not> isLoading s \<and> (requiredRole = None \<or> requiredRole = Some [])
            \<longrightarrow> AdminProtectedRoute requiredRole s = Children)
       \<and> (isLoading s \<longrightarrow> AdminProtectedRoute requiredRole s = LoadingSpinner)"
  using assms by (auto simp: AdminProtectedRoute_def truthy_def split: option.splits)

theorem admin_guard_exclusive_witness:
  "AdminProtectedRoute (Some ''operator'')
      ((initial_app Map.empty ''/admin/users'')
         \<lparr>user := Some (passenger\<lparr>roles := [''admin'', ''operator'']\<rparr>), isLoading := False\<rparr>)
     = Navigate ''/admin/login'' ''/admin/users''
   \<and> AdminProtectedRoute None
      ((initial_app Map.empty ''/admin/users'')\<lparr>user := Some operator, isLoading := False\<rparr>)
     = Children
   \<and> AdminProtectedRoute None
      ((initial_app Map.empty ''/admin/users'')\<lparr>user := Some operator\<rparr>)
     = LoadingSpinner"
  using admin_guard_exclusive
          [of "(initial_app Map.empty ''/admin/users'')
                 \<lparr>user := Some (passenger\<lparr>roles := [''admin'', ''operator'']\<rparr>),
                  isLoading := False\<rparr>"
              "passenger\<lparr>roles := [''admin'', ''operator'']\<rparr>" "Some ''operator''"]
        admin_guard_exclusive
          [of "(initial_app Map.empty ''/admin/users'')\<lparr>user := Some operator, isLoading := False\<rparr>"
              operator None]
        admin_guard_exclusive
          [of "(initial_app Map.empty ''/admin/users'')\<lparr>user := Some operator\<rparr>"
              operator None]
  by (simp add: initial_app_def passenger_def operator_def)

text \<open>
  C5. In every state with \<open>isLoading = true\<close> both guards render the loading
  placeholder, so neither produces a redirect, whatever the rest of the state is.
\<close>

theorem guards_wait_while_loading:
  assumes "isLoading s"
  shows "AdminProtectedRoute requiredRole s = LoadingSpinner
       \<and> ProtectedRoute s = LoadingSpinner
       \<and> (\<forall>target origin. AdminProtectedRoute requiredRole s \<noteq> Navigate target origin
                           \<and> ProtectedRoute s \<noteq> Navigate target origin)"
  using assms by (simp add: AdminProtectedRoute_def ProtectedRoute_def)

theorem guards_wait_while_loading_witness:
  "AdminProtectedRoute (Some ''super_admin'') (initial_app Map.empty ''/admin/users'')
     = LoadingSpinner
   \<and> ProtectedRoute ((initial_app Map.empty ''/dashboard'')\<lparr>user := Some passenger\<rparr>)
     = LoadingSpinner"
  using guards_wait_while_loading
          [of "initial_app Map.empty ''/admin/users''" "Some ''super_admin''"]
        guards_wait_while_loading
          [of "(initial_app Map.empty ''/dashboard'')\<lparr>user := Some passenger\<rparr>" None]
  by (simp add: initial_app_def)

section \<open>Properties of the auth context\<close>

text \<open>
  C8. \<open>hasRole\<close> is a pure read: it leaves the state as it found it, answers false
  when no identity is present, and otherwise answers true exactly when the role is a
  member of the identity's \<open>roles\<close>.
\<close>

theorem hasRole_pure_read:
  "snd (hasRole role s) = s
   \<and> (user s = None \<longrightarrow> \<not> fst (hasRole role s))
   \<and> (\<forall>u. user s = Some u \<longrightarrow> fst (hasRole role s) = (role \<in> set (roles u)))"
  by (simp add: hasRole_def split: option.split)

theorem hasRole_pure_read_witness:
  "\<not> fst (hasRole ''admin'' (initial_app Map.empty ''/''))
   \<and> fst (hasRole ''operator'' ((initial_app Map.empty ''/'')\<lparr>user := Some operator\<rparr>))
   \<and> \<not> fst (hasRole ''admin'' ((initial_app Map.empty ''/'')\<lparr>user := Some operator\<rparr>))
   \<and> snd (hasRole ''admin'' ((initial_app Map.empty ''/'')\<lparr>user := Some operator\<rparr>))
       = (initial_app Map.empty ''/'')\<lparr>user := Some operator\<rparr>"
  using hasRole_pure_read [of "''admin''" "initial_app Map.empty ''/''"]
        hasRole_pure_read
          [of "''operator''" "(initial_app Map.empty ''/'')\<lparr>user := Some operator\<rparr>"]
        hasRole_pure_read
          [of "''admin''" "(initial_app Map.empty ''/'')\<lparr>user := Some operator\<rparr>"]
  by (simp add: initial_app_def operator_def)

text \<open>
  C9. \<open>logout\<close> is idempotent: from every state, two calls leave the same state as
  one, with the token absent, the identity absent and the latch cleared. This holds for
  the bare operation and for the operation followed by the effect it may trigger. The
  operation has no error result.
\<close>

theorem logout_idempotent:
  "logout (logout s) = logout s
   \<and> dispatch me2 Logout (dispatch me1 Logout s) = dispatch me1 Logout s
   \<and> localStorage (logout s) ''authToken'' = None
   \<and> user (logout s) = None
   \<and> \<not> skipInitialization (logout s)
   \<and> localStorage (dispatch me1 Logout s) ''authToken'' = None
   \<and> user (dispatch me1 Logout s) = None
   \<and> \<not> skipInitialization (dispatch me1 Logout s)"
  by (simp add: logout_def dispatch_def initializeAuth_def Let_def)

text \<open>
  C6 (as amended). A run of the session resolver that finds the latch clear, as the run
  at startup does: with no usable token in the store it finishes at once, changes neither
  the identity (absent at startup) nor the store, and sends nothing to the network. When
  the identity request is rejected, whatever the error (no response, 401 or any other
  status), it clears the token and sets the identity to absent, whatever it was. When the
  request resolves, the body is installed as the identity as it came and the token is
  kept: a body that is not an identity (\<open>null\<close>) is not treated as a failure. The
  loading phase has ended after every such run.
\<close>

theorem session_resolver_contract:
  assumes "\<not> skipInitialization s"
  shows "(\<not> (\<exists>t. localStorage s ''authToken'' = Some t \<and> truthy t) \<longrightarrow>
            initializeAuth answer s = s\<lparr>isLoading := False, initRuns := initRuns s + 1\<rparr>)
       \<and> (\<forall>t error. localStorage s ''authToken'' = Some t \<and> truthy t \<longrightarrow>
            localStorage (initializeAuth (Inl error) s) ''authToken'' = None
          \<and> user (initializeAuth (Inl error) s) = None
          \<and> \<not> isLoading (initializeAuth (Inl error) s)
          \<and> map req_url (sent (initializeAuth (Inl error) s))
              = map req_url (sent s) @ [''/auth/me''])
       \<and> (\<forall>t data. localStorage s ''authToken'' = Some t \<and> truthy t \<longrightarrow>
            user (initializeAuth (Inr data) s) = data
          \<and> localStorage (initializeAuth (Inr data) s) = localStorage s
          \<and> \<not> isLoading (initializeAuth (Inr data) s)
          \<and> map req_url (sent (initializeAuth (Inr data) s))
              = map req_url (sent s) @ [''/auth/me''])
       \<and> \<not> isLoading (initializeAuth answer s)
       \<and> (\<not> (\<exists>t. storage ''authToken'' = Some t \<and> truthy t) \<longrightarrow>
            user (mount storage path answer) = None
          \<and> sent (mount storage path answer) = []
          \<and> href (mount storage path answer) = []
          \<and> localStorage (mount storage path answer) = storage)
       \<and> \<not> isLoading (mount storage path answer)"
proof -
  have loading: "\<not> isLoading (initializeAuth a s')" if "\<not> skipInitialization s'"
    for a s'
    using that by (simp add: initializeAuth_def Let_def)
  have no_token: "initializeAuth a s' = s'\<lparr>isLoading := False, initRuns := initRuns s' + 1\<rparr>"
    if "\<not> skipInitialization s'"
       "\<not> (\<exists>t. localStorage s' ''authToken'' = Some t \<and> truthy t)" for a s'
    using that
    by (cases "localStorage s' ''authToken''") (simp_all add: initializeAuth_def Let_def)
  have rejected:
    "localStorage (initializeAuth (Inl error) s) ''authToken'' = None
     \<and> user (initializeAuth (Inl error) s) = None
     \<and> map req_url (sent (initializeAuth (Inl error) s)) = map req_url (sent s) @ [''/auth/me'']"
    if "localStorage s ''authToken'' = Some t" "truthy t" for t error
    using that assms
    by (simp add: initializeAuth_def Let_def authService_getCurrentUser_def api_call_def
          api_response_rejected_def)
  have resolved:
    "user (initializeAuth (Inr data) s) = data
     \<and> localStorage (initializeAuth (Inr data) s) = localStorage s
     \<and> map req_url (sent (initializeAuth (Inr data) s)) = map req_url (sent s) @ [''/auth/me'']"
    if "localStorage s ''authToken'' = Some t" "truthy t" for t data
    using that assms
    by (simp add: initializeAuth_def Let_def authService_getCurrentUser_def api_call_def)
  have started: "\<not> skipInitialization (initial_app storage path)"
    by (simp add: initial_app_def)
  have at_mount: "mount storage path answer =
      (initial_app storage path)\<lparr>isLoading := False, initRuns := 1\<rparr>"
    if "\<not> (\<exists>t. storage ''authToken'' = Some t \<and> truthy t)"
    using no_token [OF started, of answer] that by (simp add: mount_def initial_app_def)
  show ?thesis
    using no_token [OF assms] rejected resolved loading [OF assms] loading [OF started]
      at_mount
    by (simp add: mount_def initial_app_def)
qed

theorem session_resolver_contract_witness:
  "mount Map.empty ''/dashboard'' (Inr (Some passenger)) =
     \<lparr>user = None, isLoading = False, skipInitialization = False,
      localStorage = Map.empty, pathname = ''/dashboard'', href = [], sent = [],
      initRuns = 1\<rparr>
   \<and> localStorage (mount [''authToken'' \<mapsto> ''T1''] ''/dashboard'' (Inl transport_error))
        ''authToken'' = None
   \<and> user (initializeAuth (Inl transport_error)
        ((initial_app [''authToken'' \<mapsto> ''T1''] ''/dashboard'')\<lparr>user := Some passenger\<rparr>))
       = None
   \<and> \<not> isLoading (mount [''authToken'' \<mapsto> ''T1''] ''/dashboard'' (Inl transport_error))
   \<and> user (mount [''authToken'' \<mapsto> ''T1''] ''/dashboard'' (Inr (Some passenger)))
       = Some passenger"
  using session_resolver_contract
          [of "initial_app Map.empty ''/dashboard''" "Inr (Some passenger)"
              Map.empty "''/dashboard''"]
        session_resolver_contract
          [of "initial_app [''authToken'' \<mapsto> ''T1''] ''/dashboard''" "Inl transport_error"
              "[''authToken'' \<mapsto> ''T1'']" "''/dashboard''"]
        session_resolver_contract
          [of "(initial_app [''authToken'' \<mapsto> ''T1''] ''/dashboard'')\<lparr>user := Some passenger\<rparr>"
              "Inl transport_error" Map.empty "''/dashboard''"]
  by (simp add: mount_def initializeAuth_def initial_app_def Let_def truthy_def
        authService_getCurrentUser_def api_call_def api_response_rejected_def
        transport_error_def)

text \<open>
  The claim as stated fails on a malformed response: the request resolves with the body
  \<open>null\<close>, and the stored token \<open>T1\<close> is still in the store after the run.
\<close>

theorem session_resolver_malformed_counterexample:
  "localStorage (mount [''authToken'' \<mapsto> ''T1''] ''/dashboard'' (Inr None)) ''authToken''
     = Some ''T1''"
  by (simp add: mount_def initializeAuth_def initial_app_def Let_def truthy_def
        authService_getCurrentUser_def api_call_def)

text \<open>
  C7. A failing \<open>login\<close> from the unauthenticated state throws: with the backend's
  \<open>detail\<close> as the message when a response carrying one arrived (any status, so every
  4xx), with the generic connection message when no response arrived. No identity is
  installed, the latch is not set, and nothing is written to the store: it is left as it
  was, or without the token when the response was a 401.
\<close>

theorem login_failure:
  assumes "user s = None"
  shows "\<exists>msg s'. login credentials (Inl error) s = (Inl msg, s')
       \<and> user s' = None
       \<and> skipInitialization s' = skipInitialization s
       \<and> isLoading s' = isLoading s
       \<and> (localStorage s' = localStorage s
          \<or> localStorage s' = (localStorage s)(''authToken'' := None))
       \<and> (\<forall>r d. response error = Some r \<and> data_detail r = Some d \<and> truthy d
                  \<longrightarrow> msg = d)
       \<and> (response error = None \<and> request error
             \<longrightarrow> msg = ''Network error - please check your connection'')"
  using assms
  by (simp add: login_def authService_login_def api_call_def api_response_rejected_def
        handleApiError_def or_default_def Let_def)

theorem login_failure_witness:
  "login credentials_x (Inl (status_error 401 (Some ''Incorrect email or password'')))
      (mount [''authToken'' \<mapsto> ''old''] ''/login'' (Inl transport_error))
     = (Inl ''Incorrect email or password'',
        \<lparr>user = None, isLoading = False, skipInitialization = False,
         localStorage = Map.empty, pathname = ''/login'', href = [],
         sent = [\<lparr>req_method = ''GET'', req_url = ''/auth/me'',
                   req_authorization = Some ''Bearer old''\<rparr>,
                 \<lparr>req_method = ''POST'', req_url = ''/auth/login'',
                   req_authorization = None\<rparr>],
         initRuns = 1\<rparr>)
   \<and> fst (login credentials_x (Inl transport_error)
             (mount Map.empty ''/login'' (Inl transport_error)))
     = Inl ''Network error - please check your connection''"
  using login_failure
          [of "mount [''authToken'' \<mapsto> ''old''] ''/login'' (Inl transport_error)"
              credentials_x "status_error 401 (Some ''Incorrect email or password'')"]
        login_failure
          [of "mount Map.empty ''/login'' (Inl transport_error)"
              credentials_x transport_error]
  by (simp add: login_def authService_login_def api_call_def api_response_rejected_def
        handleApiError_def or_default_def Let_def mount_def initializeAuth_def
        initial_app_def authService_getCurrentUser_def request_interceptor_def
        status_error_def transport_error_def truthy_def)

text \<open>
  C3. A successful \<open>login\<close> stores the token, installs the identity and sets the
  latch; a successful \<open>register\<close> from the same state with the same response stores
  the token and installs the identity, and leaves the latch clear.
\<close>

theorem register_leaves_latch_clear:
  "skipInitialization (snd (login credentials_x (Inr (token_response passenger))
       (mount Map.empty ''/register'' (Inl transport_error))))
   \<and> \<not> skipInitialization (snd (register registration_x (Inr (token_response passenger))
       (mount Map.empty ''/register'' (Inl transport_error))))
   \<and> localStorage (snd (register registration_x (Inr (token_response passenger))
       (mount Map.empty ''/register'' (Inl transport_error)))) ''authToken'' = Some ''T''
   \<and> user (snd (register registration_x (Inr (token_response passenger))
       (mount Map.empty ''/register'' (Inl transport_error)))) = Some passenger"
  by (simp add: login_def register_def authService_login_def authService_register_def
        api_call_def mount_def initializeAuth_def initial_app_def Let_def
        token_response_def)

section \<open>Properties of the provider's life cycle\<close>

text \<open>
  C4 (as amended). The session resolver runs once at mount. After that it runs again
  exactly on a \<open>logout\<close> that finds the latch set, which is the first logout after a
  successful login; that run sends nothing to the network. \<open>login\<close> and
  \<open>register\<close> never make it run.
\<close>

theorem resolver_runs:
  "initRuns (mount storage path answer) = 1
   \<and> initRuns (dispatch me a s) =
       initRuns s + (if a = Logout \<and> skipInitialization s then 1 else 0)
   \<and> sent (dispatch me Logout s) = sent s"
proof -
  have at_mount: "initRuns (mount storage path answer) = 1"
    by (simp add: mount_def initializeAuth_def initial_app_def Let_def
          authService_getCurrentUser_def api_call_def api_response_rejected_def
          split: option.split sum.split)
  have per_call: "initRuns (dispatch me a s) =
       initRuns s + (if a = Logout \<and> skipInitialization s then 1 else 0)"
  proof (cases a)
    case (Login credentials answer)
    then show ?thesis
      by (cases answer)
         (simp_all add: dispatch_def login_def authService_login_def api_call_def
            api_response_rejected_def initializeAuth_def Let_def)
  next
    case (Register userData answer)
    then show ?thesis
      by (cases answer)
         (simp_all add: dispatch_def register_def authService_register_def api_call_def
            api_response_rejected_def Let_def)
  next
    case Logout
    then show ?thesis
      by (simp add: dispatch_def logout_def initializeAuth_def Let_def)
  qed
  have quiet: "sent (dispatch me Logout s) = sent s"
    by (simp add: dispatch_def logout_def initializeAuth_def Let_def)
  show ?thesis using at_mount per_call quiet by simp
qed

text \<open>
  The claim as stated fails: after mount, one successful login followed by one logout
  makes the resolver run a second time.
\<close>

theorem resolver_reruns_counterexample:
  "initRuns (run [(Inl transport_error, Login credentials_x (Inr (token_response passenger))),
                  (Inl transport_error, Logout)]
               (mount Map.empty ''/login'' (Inl transport_error))) = 2"
  by (simp add: dispatch_def login_def logout_def authService_login_def api_call_def
        mount_def initializeAuth_def initial_app_def Let_def)

section \<open>Properties of the HTTP interceptors\<close>

text \<open>
  C2. On a rejection carrying HTTP 401, the response interceptor of each client removes
  the stored token; then, unless the current path already contains \<open>/login\<close> (as the
  two login routes \<open>/login\<close> and \<open>/admin/login\<close> do), it assigns the client's login
  route to \<open>window.location.href\<close>: \<open>/login\<close> for the general client,
  \<open>/admin/login\<close> for the admin client. It changes nothing else and returns the
  rejection with the same error.
\<close>

theorem interceptors_on_401:
  assumes "map_option http_status (response error) = Some 401"
  shows "api_response_rejected error s =
           (Inl error,
            s\<lparr>localStorage := (localStorage s)(''authToken'' := None),
              href := href s @ (if str_includes (pathname s) ''/login'' then []
                                else [''/login''])\<rparr>)
       \<and> adminApi_response_rejected error s =
           (Inl error,
            s\<lparr>localStorage := (localStorage s)(''authToken'' := None),
              href := href s @ (if str_includes (pathname s) ''/login'' then []
                                else [''/admin/login''])\<rparr>)
       \<and> (pathname s = ''/login'' \<or> pathname s = ''/admin/login''
            \<longrightarrow> str_includes (pathname s) ''/login'')"
  using assms
  by (auto simp: api_response_rejected_def adminApi_response_rejected_def Let_def)

theorem interceptors_on_401_witness:
  "localStorage (snd (api_response_rejected (status_error 401 None)
       (initial_app [''authToken'' \<mapsto> ''T1''] ''/dashboard'')
       :: (axios_error + unit) \<times> app)) ''authToken'' = None
   \<and> href (snd (api_response_rejected (status_error 401 None)
       (initial_app [''authToken'' \<mapsto> ''T1''] ''/dashboard'')
       :: (axios_error + unit) \<times> app)) = [''/login'']
   \<and> localStorage (snd (adminApi_response_rejected (status_error 401 None)
       (initial_app [''authToken'' \<mapsto> ''T1''] ''/admin/users'')
       :: (axios_error + unit) \<times> app)) ''authToken'' = None
   \<and> href (snd (adminApi_response_rejected (status_error 401 None)
       (initial_app [''authToken'' \<mapsto> ''T1''] ''/admin/users'')
       :: (axios_error + unit) \<times> app)) = [''/admin/login'']
   \<and> href (snd (adminApi_response_rejected (status_error 401 None)
       (initial_app [''authToken'' \<mapsto> ''T1''] ''/admin/login'')
       :: (axios_error + unit) \<times> app)) = []
   \<and> fst (adminApi_response_rejected (status_error 401 None)
       (initial_app [''authToken'' \<mapsto> ''T1''] ''/admin/login'')
       :: (axios_error + unit) \<times> app) = Inl (status_error 401 None)"
  using interceptors_on_401
          [where ?'a = unit and ?'b = unit, of "status_error 401 None" "initial_app [''authToken'' \<mapsto> ''T1''] ''/dashboard''"]
        interceptors_on_401
          [where ?'a = unit and ?'b = unit, of "status_error 401 None" "initial_app [''authToken'' \<mapsto> ''T1''] ''/admin/users''"]
        interceptors_on_401
          [where ?'a = unit and ?'b = unit, of "status_error 401 None" "initial_app [''authToken'' \<mapsto> ''T1''] ''/admin/login''"]
  by (simp add: status_error_def initial_app_def)

end
